theory Spec2Isabelle
  imports Main "HOL-Library.AList"
begin

section \<open>The x-generation composition generator (pkg/main.go)\<close>

text \<open>
  A shallow embedding of the decision logic of \<^verbatim>\<open>pkg/main.go\<close>: the list and map
  merge utilities, the resolution of a local generator configuration against the global
  one, its validation, the detection of the tag schema of a CRD, and the loop that writes
  the generated files.
\<close>

subsection \<open>String lists: \<^verbatim>\<open>listHas\<close> and \<^verbatim>\<open>appendLists\<close>\<close>

text \<open>
  Go slices of strings are modelled as \<open>string list\<close>. Both functions take
  \<^verbatim>\<open>*[]string\<close>; every call site passes the address of a field or of a package
  variable, so the pointer itself is never nil and the model takes the slice. No function
  of the program writes to an element of an existing slice, so slices are values here.
\<close>

text \<open>
  \<^verbatim>\<open>for _, v := range *list { if v == value { return true } }; return false\<close>
\<close>

fun listHas :: "string list \<Rightarrow> string \<Rightarrow> bool" where
  "listHas [] val = False"
| "listHas (v # list) val = (if v = val then True else listHas list val)"

text \<open>
  The loop of \<^verbatim>\<open>appendLists\<close>: \<open>b\<close> is what is left of \<^verbatim>\<open>*b\<close>, \<open>list\<close> the
  accumulator. Membership is tested against \<open>a\<close>, not against the accumulator.
\<close>

fun appendLists_loop :: "string list \<Rightarrow> string list \<Rightarrow> string list \<Rightarrow> string list" where
  "appendLists_loop a [] list = list"
| "appendLists_loop a (v # b) list =
     (if \<not> listHas a v then appendLists_loop a b (list @ [v]) else appendLists_loop a b list)"

text \<open>
  \<^verbatim>\<open>list := []string{}; list = append(list, *a...)\<close>, then the loop.
\<close>

definition appendLists :: "string list \<Rightarrow> string list \<Rightarrow> string list" where
  "appendLists a b = appendLists_loop a b ([] @ a)"

subsection \<open>String maps: references into a heap\<close>

text \<open>
  A Go value of type \<^verbatim>\<open>map[string]string\<close> is either nil or a reference to a map
  object; assigning the value copies the reference, and \<^verbatim>\<open>a[k] = v\<close> changes the
  object for everyone who holds it. The objects live in a heap, addressed by numbers. No
  function modelled here creates a map, so the heap has no allocator. A map object is
  held as the list of its entries, each key once, in the order in which a
  \<^verbatim>\<open>range\<close> over it yields them.
\<close>

type_synonym addr = nat
type_synonym gomap = "addr option"
type_synonym heap = "addr \<Rightarrow> (string \<times> string) list"

datatype panic = NilMapAssignment | NilDereference

text \<open>The entries a \<^verbatim>\<open>range\<close> yields; a nil map yields none.\<close>

definition map_entries :: "heap \<Rightarrow> gomap \<Rightarrow> (string \<times> string) list" where
  "map_entries h m = (case m of None \<Rightarrow> [] | Some p \<Rightarrow> h p)"

text \<open>\<^verbatim>\<open>v, ok := m[k]\<close>; reading a nil map finds nothing.\<close>

definition map_lookup :: "heap \<Rightarrow> gomap \<Rightarrow> string \<rightharpoonup> string" where
  "map_lookup h m = map_of (map_entries h m)"

text \<open>\<^verbatim>\<open>len(m)\<close>\<close>

definition map_len :: "heap \<Rightarrow> gomap \<Rightarrow> nat" where
  "map_len h m = length (map_entries h m)"

text \<open>\<^verbatim>\<open>a[k] = v\<close>; on a nil map Go panics (assignment to entry in nil map).\<close>

definition map_assign :: "heap \<Rightarrow> gomap \<Rightarrow> string \<Rightarrow> string \<Rightarrow> panic + heap" where
  "map_assign h a k v =
     (case a of
        None \<Rightarrow> Inl NilMapAssignment
      | Some p \<Rightarrow> Inr (h(p := AList.update k v (h p))))"

text \<open>
  \<^verbatim>\<open>for k, v := range b { a[k] = v }\<close>: the first argument is what is left of the
  entries of \<open>b\<close>.
\<close>

fun appendStringMaps_loop :: "(string \<times> string) list \<Rightarrow> gomap \<Rightarrow> heap \<Rightarrow> panic + heap" where
  "appendStringMaps_loop [] a h = Inr h"
| "appendStringMaps_loop ((k, v) # b) a h =
     (case map_assign h a k v of
        Inl e \<Rightarrow> Inl e
      | Inr h' \<Rightarrow> appendStringMaps_loop b a h')"

text \<open>\<^verbatim>\<open>appendStringMaps\<close> runs the loop and returns \<open>a\<close>, the reference it was given.\<close>

definition appendStringMaps :: "heap \<Rightarrow> gomap \<Rightarrow> gomap \<Rightarrow> panic + (gomap \<times> heap)" where
  "appendStringMaps h a b =
     (case appendStringMaps_loop (map_entries h b) a h of
        Inl e \<Rightarrow> Inl e
      | Inr h' \<Rightarrow> Inr (a, h'))"

subsection \<open>The configurations\<close>

text \<open>
  The structs of the source with the fields that \<^verbatim>\<open>UpdateConfig\<close>,
  \<^verbatim>\<open>CheckConfig\<close> and the write loop of \<^verbatim>\<open>Exec\<close> read or write. An embedded
  struct is a record extension.
\<close>

type_synonym GlobalHandlingType = string

definition replaceGlobal :: GlobalHandlingType where
  "replaceGlobal = ''replace''"

definition appendGlobal :: GlobalHandlingType where
  "appendGlobal = ''append''"

definition globalLabels :: "string list" where
  "globalLabels =
     [''crossplane.io/claim-name'', ''crossplane.io/claim-namespace'',
      ''crossplane.io/composite'', ''external-name'']"

record TagConfig =
  FromLabels :: "string list"
  Common :: gomap

record LabelConfig =
  FromCRD :: "string list"
  Common :: gomap

record GlobalHandlingTags =
  FromLabels :: GlobalHandlingType
  Common :: GlobalHandlingType

record GlobalHandlingLabels =
  FromCRD :: GlobalHandlingType
  Common :: GlobalHandlingType

record LocalTagConfig = TagConfig +
  GlobalHandling :: GlobalHandlingTags

record LocalLabelConfig = LabelConfig +
  GlobalHandling :: GlobalHandlingLabels

record GeneratorConfig =
  Tags :: TagConfig
  Labels :: LabelConfig

record Generator =
  Tags :: LocalTagConfig
  Labels :: LocalLabelConfig
  configPath :: string

subsection \<open>\<^verbatim>\<open>UpdateConfig\<close>\<close>

text \<open>
  The four statements of the body, in the order of the source. Each is an
  \<^verbatim>\<open>if ... else if ...\<close> with no final \<^verbatim>\<open>else\<close>.
\<close>

definition UpdateConfig_Labels_FromCRD :: "GeneratorConfig \<Rightarrow> Generator \<Rightarrow> Generator" where
  "UpdateConfig_Labels_FromCRD generatorConfig g =
     (if GlobalHandlingLabels.FromCRD (LocalLabelConfig.GlobalHandling (Generator.Labels g)) = appendGlobal
      then g\<lparr>Generator.Labels := (Generator.Labels g)\<lparr>LabelConfig.FromCRD :=
             appendLists (LabelConfig.FromCRD (GeneratorConfig.Labels generatorConfig))
                         (LabelConfig.FromCRD (Generator.Labels g))\<rparr>\<rparr>
      else if length (LabelConfig.FromCRD (Generator.Labels g)) = 0
            \<and> GlobalHandlingLabels.FromCRD (LocalLabelConfig.GlobalHandling (Generator.Labels g)) \<noteq> replaceGlobal
      then g\<lparr>Generator.Labels := (Generator.Labels g)\<lparr>LabelConfig.FromCRD :=
             LabelConfig.FromCRD (GeneratorConfig.Labels generatorConfig)\<rparr>\<rparr>
      else g)"

definition UpdateConfig_Labels_Common ::
  "GeneratorConfig \<Rightarrow> heap \<Rightarrow> Generator \<Rightarrow> panic + (Generator \<times> heap)" where
  "UpdateConfig_Labels_Common generatorConfig h g =
     (if GlobalHandlingLabels.Common (LocalLabelConfig.GlobalHandling (Generator.Labels g)) = appendGlobal
      then (case appendStringMaps h (LabelConfig.Common (GeneratorConfig.Labels generatorConfig))
                                    (LabelConfig.Common (Generator.Labels g)) of
              Inl e \<Rightarrow> Inl e
            | Inr (m, h') \<Rightarrow>
                Inr (g\<lparr>Generator.Labels := (Generator.Labels g)\<lparr>LabelConfig.Common := m\<rparr>\<rparr>, h'))
      else if map_len h (LabelConfig.Common (Generator.Labels g)) = 0
            \<and> GlobalHandlingLabels.Common (LocalLabelConfig.GlobalHandling (Generator.Labels g)) \<noteq> replaceGlobal
      then Inr (g\<lparr>Generator.Labels := (Generator.Labels g)\<lparr>LabelConfig.Common :=
                  LabelConfig.Common (GeneratorConfig.Labels generatorConfig)\<rparr>\<rparr>, h)
      else Inr (g, h))"

definition UpdateConfig_Tags_FromLabels :: "GeneratorConfig \<Rightarrow> Generator \<Rightarrow> Generator" where
  "UpdateConfig_Tags_FromLabels generatorConfig g =
     (if GlobalHandlingTags.FromLabels (LocalTagConfig.GlobalHandling (Generator.Tags g)) = appendGlobal
      then g\<lparr>Generator.Tags := (Generator.Tags g)\<lparr>TagConfig.FromLabels :=
             appendLists (TagConfig.FromLabels (GeneratorConfig.Tags generatorConfig))
                         (TagConfig.FromLabels (Generator.Tags g))\<rparr>\<rparr>
      else if length (TagConfig.FromLabels (Generator.Tags g)) = 0
            \<and> GlobalHandlingTags.FromLabels (LocalTagConfig.GlobalHandling (Generator.Tags g)) \<noteq> replaceGlobal
      then g\<lparr>Generator.Tags := (Generator.Tags g)\<lparr>TagConfig.FromLabels :=
             TagConfig.FromLabels (GeneratorConfig.Tags generatorConfig)\<rparr>\<rparr>
      else g)"

definition UpdateConfig_Tags_Common ::
  "GeneratorConfig \<Rightarrow> heap \<Rightarrow> Generator \<Rightarrow> panic + (Generator \<times> heap)" where
  "UpdateConfig_Tags_Common generatorConfig h g =
     (if GlobalHandlingTags.Common (LocalTagConfig.GlobalHandling (Generator.Tags g)) = appendGlobal
      then (case appendStringMaps h (TagConfig.Common (GeneratorConfig.Tags generatorConfig))
                                    (TagConfig.Common (Generator.Tags g)) of
              Inl e \<Rightarrow> Inl e
            | Inr (m, h') \<Rightarrow>
                Inr (g\<lparr>Generator.Tags := (Generator.Tags g)\<lparr>TagConfig.Common := m\<rparr>\<rparr>, h'))
      else if map_len h (TagConfig.Common (Generator.Tags g)) = 0
            \<and> GlobalHandlingTags.Common (LocalTagConfig.GlobalHandling (Generator.Tags g)) \<noteq> replaceGlobal
      then Inr (g\<lparr>Generator.Tags := (Generator.Tags g)\<lparr>TagConfig.Common :=
                  TagConfig.Common (GeneratorConfig.Tags generatorConfig)\<rparr>\<rparr>, h)
      else Inr (g, h))"

text \<open>
  \<^verbatim>\<open>func (g *Generator) UpdateConfig(generatorConfig *GeneratorConfig)\<close>: nothing
  happens for a nil \<^verbatim>\<open>generatorConfig\<close>. The result is the updated generator and the
  heap after the call, or the panic that ended it.
\<close>

definition UpdateConfig ::
  "heap \<Rightarrow> Generator \<Rightarrow> GeneratorConfig option \<Rightarrow> panic + (Generator \<times> heap)" where
  "UpdateConfig h g generatorConfig =
     (case generatorConfig of
        None \<Rightarrow> Inr (g, h)
      | Some gc \<Rightarrow>
          (case UpdateConfig_Labels_Common gc h (UpdateConfig_Labels_FromCRD gc g) of
             Inl e \<Rightarrow> Inl e
           | Inr (g2, h2) \<Rightarrow> UpdateConfig_Tags_Common gc h2 (UpdateConfig_Tags_FromLabels gc g2)))"

subsection \<open>\<^verbatim>\<open>CheckConfig\<close>\<close>

text \<open>
  \<^verbatim>\<open>json.Marshal\<close> is a library function: \<open>marshal\<close> stands for what it returns on
  a list of strings (its error is dropped by the source).
\<close>

definition getJsonStringFromList :: "(string list \<Rightarrow> string) \<Rightarrow> string list \<Rightarrow> string" where
  "getJsonStringFromList marshal list =
     (if length list > 0 then marshal list else ''[]'')"

text \<open>
  The loop of \<^verbatim>\<open>CheckConfig\<close> over \<^verbatim>\<open>g.Tags.FromLabels\<close>;
  \<open>listOfErrFields\<close> is the accumulator.
\<close>

fun CheckConfig_loop ::
  "heap \<Rightarrow> gomap \<Rightarrow> string list \<Rightarrow> string list \<Rightarrow> string list \<Rightarrow> string list" where
  "CheckConfig_loop h commonLables fromCRD [] listOfErrFields = listOfErrFields"
| "CheckConfig_loop h commonLables fromCRD (t # ts) listOfErrFields =
     (if map_lookup h commonLables t = None \<and> \<not> listHas fromCRD t \<and> \<not> listHas globalLabels t
      then CheckConfig_loop h commonLables fromCRD ts (listOfErrFields @ [t])
      else CheckConfig_loop h commonLables fromCRD ts listOfErrFields)"

definition CheckConfig_message :: string where
  "CheckConfig_message =
     ''Not all tags.fromLables entries exist in labels.fromCRD or global generator config or globalLabels: ''"

text \<open>
  \<^verbatim>\<open>func (g *Generator) CheckConfig(generatorConfig *GeneratorConfig) error\<close>:
  \<open>Inr None\<close> is the nil error, \<open>Inr (Some msg)\<close> the error with that message. The
  first statement reads a field of \<^verbatim>\<open>generatorConfig\<close>, which panics on nil.
\<close>

definition CheckConfig ::
  "(string list \<Rightarrow> string) \<Rightarrow> heap \<Rightarrow> Generator \<Rightarrow> GeneratorConfig option \<Rightarrow> panic + string option" where
  "CheckConfig marshal h g generatorConfig =
     (case generatorConfig of
        None \<Rightarrow> Inl NilDereference
      | Some gc \<Rightarrow>
          (let commonLables = LabelConfig.Common (GeneratorConfig.Labels gc);
               listOfErrFields = CheckConfig_loop h commonLables
                 (LabelConfig.FromCRD (Generator.Labels g)) (TagConfig.FromLabels (Generator.Tags g)) []
           in if length listOfErrFields > 0
              then Inr (Some (CheckConfig_message @ getJsonStringFromList marshal listOfErrFields))
              else Inr None))"

subsection \<open>The CRD document\<close>

text \<open>
  \<^verbatim>\<open>checkTagType\<close> and \<^verbatim>\<open>tryToGetTags\<close> read a
  \<^verbatim>\<open>CustomResourceDefinition\<close> of the Kubernetes package
  \<^verbatim>\<open>k8s.io/apiextensions-apiserver/pkg/apis/apiextensions/v1\<close>. The types below are
  that package's, with the fields the two functions read. A field that is a pointer there
  (\<^verbatim>\<open>Schema *CustomResourceValidation\<close>, \<^verbatim>\<open>OpenAPIV3Schema *JSONSchemaProps\<close>,
  \<^verbatim>\<open>Items *JSONSchemaPropsOrArray\<close>, \<^verbatim>\<open>AdditionalProperties *JSONSchemaPropsOrBool\<close>,
  and \<^verbatim>\<open>Schema *JSONSchemaProps\<close> in both of the latter) is an \<open>option\<close> here,
  \<open>None\<close> for nil: the decoder leaves it nil when the document has no such node.
  \<^verbatim>\<open>Properties\<close> is a \<^verbatim>\<open>map[string]JSONSchemaProps\<close>, which is only read: it
  is the list of its entries, looked up with \<open>map_of\<close> (a nil map is the empty list).
\<close>

datatype 'a JSONSchemaPropsOrArray =
  JSONSchemaPropsOrArray (Schema: "'a option") (JSONSchemas: "'a list")

datatype 'a JSONSchemaPropsOrBool =
  JSONSchemaPropsOrBool (Allows: bool) (Schema: "'a option")

datatype JSONSchemaProps =
  JSONSchemaProps
    (Type: string)
    (Items: "JSONSchemaProps JSONSchemaPropsOrArray option")
    (Properties: "(string \<times> JSONSchemaProps) list")
    (AdditionalProperties: "JSONSchemaProps JSONSchemaPropsOrBool option")

record CustomResourceValidation =
  OpenAPIV3Schema :: "JSONSchemaProps option"

record CustomResourceDefinitionVersion =
  Name :: string
  Schema :: "CustomResourceValidation option"

record CustomResourceDefinitionSpec =
  Versions :: "CustomResourceDefinitionVersion list"

record CustomResourceDefinition =
  Spec :: CustomResourceDefinitionSpec

subsection \<open>\<^verbatim>\<open>tryToGetTags\<close> and \<^verbatim>\<open>checkTagType\<close>\<close>

text \<open>
  The body of the loop of \<^verbatim>\<open>tryToGetTags\<close> for a version whose name is the
  requested one. \<open>Inr (Some (tags, tagProperty))\<close> is the \<^verbatim>\<open>return\<close> inside the
  loop, \<open>Inr None\<close> falling out of the nested \<^verbatim>\<open>if\<close>s to the next iteration, and
  \<open>Inl NilDereference\<close> the panic of reading a field through a nil pointer.
\<close>

definition tryToGetTags_version ::
  "CustomResourceDefinitionVersion \<Rightarrow> panic + (JSONSchemaProps \<times> string) option" where
  "tryToGetTags_version schemaVersion =
     (case CustomResourceDefinitionVersion.Schema schemaVersion of
        None \<Rightarrow> Inl NilDereference
      | Some validation \<Rightarrow>
     (case OpenAPIV3Schema validation of
        None \<Rightarrow> Inl NilDereference
      | Some schema \<Rightarrow>
     (case map_of (Properties schema) ''spec'' of
        None \<Rightarrow> Inr None
      | Some specs \<Rightarrow>
     (case map_of (Properties specs) ''forProvider'' of
        None \<Rightarrow> Inr None
      | Some forProvider \<Rightarrow>
     (case map_of (Properties forProvider) ''tags'' of
        Some tags \<Rightarrow> Inr (Some (tags, ''tag''))
      | None \<Rightarrow>
     (case map_of (Properties forProvider) ''tagging'' of
        None \<Rightarrow> Inr None
      | Some tagging \<Rightarrow>
     (case map_of (Properties tagging) ''tagSet'' of
        Some tagSet \<Rightarrow> Inr (Some (tagSet, ''tagSet''))
      | None \<Rightarrow> Inr None)))))))"

text \<open>\<^verbatim>\<open>for _, schemaVersion := range crd.Spec.Versions\<close>\<close>

fun tryToGetTags_loop ::
  "CustomResourceDefinitionVersion list \<Rightarrow> string \<Rightarrow> panic + (JSONSchemaProps \<times> string) option" where
  "tryToGetTags_loop [] version = Inr None"
| "tryToGetTags_loop (schemaVersion # versions) version =
     (if Name schemaVersion = version
      then (case tryToGetTags_version schemaVersion of
              Inl e \<Rightarrow> Inl e
            | Inr (Some found) \<Rightarrow> Inr (Some found)
            | Inr None \<Rightarrow> tryToGetTags_loop versions version)
      else tryToGetTags_loop versions version)"

text \<open>
  \<^verbatim>\<open>tryToGetTags\<close>: \<open>Inr None\<close> is the error return
  \<^verbatim>\<open>nil, "", errors.New("Could not find tags")\<close>.
\<close>

definition tryToGetTags ::
  "CustomResourceDefinition \<Rightarrow> string \<Rightarrow> panic + (JSONSchemaProps \<times> string) option" where
  "tryToGetTags crd version =
     (if length (Versions (Spec crd)) > 0
      then tryToGetTags_loop (Versions (Spec crd)) version
      else Inr None)"

text \<open>
  The \<^verbatim>\<open>if tags.Type == "array"\<close> block of \<^verbatim>\<open>checkTagType\<close>:
  \<open>Inr (Some r)\<close> when it returns \<open>r\<close>, \<open>Inr None\<close> when control leaves the block.
  \<^verbatim>\<open>tags.Items.Schema.Type\<close> reads through two pointers.
\<close>

definition checkTagType_array :: "JSONSchemaProps \<Rightarrow> string \<Rightarrow> panic + (string \<times> string) option" where
  "checkTagType_array tags tagProperty =
     (if Type tags = ''array''
      then (case Items tags of
              None \<Rightarrow> Inl NilDereference
            | Some items \<Rightarrow>
           (case JSONSchemaPropsOrArray.Schema items of
              None \<Rightarrow> Inl NilDereference
            | Some itemSchema \<Rightarrow>
                (let subType = Type itemSchema in
                 if subType = ''object''
                 then (let properties = Properties itemSchema;
                           ok = (map_of properties ''key'' \<noteq> None);
                           ok2 = (map_of properties ''value'' \<noteq> None)
                       in if ok \<and> ok2 then Inr (Some (''keyValueArray'', tagProperty))
                          else (let ok3 = (map_of properties ''tagKey'' \<noteq> None);
                                    ok4 = (map_of properties ''tagValue'' \<noteq> None)
                                in if ok3 \<and> ok4 then Inr (Some (''tagKeyValueArray'', tagProperty))
                                   else Inr None))
                 else Inr None)))
      else Inr None)"

text \<open>
  The \<^verbatim>\<open>if tags.Type == "object"\<close> block, with
  \<^verbatim>\<open>tags.AdditionalProperties.Schema.Type\<close> read through two pointers.
\<close>

definition checkTagType_object :: "JSONSchemaProps \<Rightarrow> string \<Rightarrow> panic + (string \<times> string) option" where
  "checkTagType_object tags tagProperty =
     (if Type tags = ''object''
      then (case AdditionalProperties tags of
              None \<Rightarrow> Inl NilDereference
            | Some additional \<Rightarrow>
           (case JSONSchemaPropsOrBool.Schema additional of
              None \<Rightarrow> Inl NilDereference
            | Some valueSchema \<Rightarrow>
                if Type valueSchema = ''string''
                then Inr (Some (''stringObject'', tagProperty))
                else Inr None))
      else Inr None)"

text \<open>
  \<^verbatim>\<open>checkTagType\<close> returns the tag type and the tag property; the pair of empty
  strings is the unknown result.
\<close>

definition checkTagType :: "CustomResourceDefinition \<Rightarrow> string \<Rightarrow> panic + (string \<times> string)" where
  "checkTagType crd version =
     (case tryToGetTags crd version of
        Inl e \<Rightarrow> Inl e
      | Inr None \<Rightarrow> Inr ('''', '''')
      | Inr (Some (tags, tagProperty)) \<Rightarrow>
          (case checkTagType_array tags tagProperty of
             Inl e \<Rightarrow> Inl e
           | Inr (Some r) \<Rightarrow> Inr r
           | Inr None \<Rightarrow>
               (case checkTagType_object tags tagProperty of
                  Inl e \<Rightarrow> Inl e
                | Inr (Some r) \<Rightarrow> Inr r
                | Inr None \<Rightarrow> Inr ('''', ''''))))"

subsection \<open>The write loop of \<^verbatim>\<open>Exec\<close>\<close>

text \<open>
  \<^verbatim>\<open>Exec\<close> runs the jsonnet script and decodes its output into
  \<^verbatim>\<open>jso\<close>, a map from file name to document; from there on (the source from
  \<^verbatim>\<open>outPath := g.configPath\<close>) it writes the files. That second part is modelled,
  with \<open>jso\<close> given as the list of its entries in the order in which the
  \<^verbatim>\<open>range\<close> yields them. A document (\<^verbatim>\<open>interface{}\<close>) is a value of any
  type \<open>'v\<close>.

  The library functions the loop calls are parameters, collected in a record:
  \<^verbatim>\<open>filepath.Join\<close>; \<^verbatim>\<open>yaml.Marshal\<close>, with the bytes it returns;
  \<^verbatim>\<open>yaml.Unmarshal\<close> of the bytes of a file into the fresh map \<^verbatim>\<open>ec\<close>, with
  the value \<^verbatim>\<open>ec\<close> has afterwards; \<^verbatim>\<open>cmp.Equal\<close>. Their errors are printed
  by the source and the loop goes on with what they returned.
\<close>

record 'v library =
  filepath_Join :: "string \<Rightarrow> string \<Rightarrow> string"
  yaml_Marshal :: "'v \<Rightarrow> string"
  yaml_Unmarshal :: "string \<Rightarrow> 'v"
  cmp_Equal :: "'v \<Rightarrow> 'v \<Rightarrow> bool"

text \<open>
  The file system: \<open>files\<close> maps the paths that exist to their content;
  \<open>written\<close> lists the paths given to \<^verbatim>\<open>ioutil.WriteFile\<close>, in order.
  \<^verbatim>\<open>os.Stat\<close> succeeds on the paths that exist, \<^verbatim>\<open>ioutil.ReadFile\<close> returns
  their content, and \<^verbatim>\<open>ioutil.WriteFile\<close> succeeds.
\<close>

record filesystem =
  files :: "string \<rightharpoonup> string"
  written :: "string list"

text \<open>
  \<^verbatim>\<open>fmt.Sprintf(autogenHeader, time.Now().Format("15:04:05 on 01-02-2006"))\<close>, given
  the formatted time.
\<close>

definition autogenHeader :: "string \<Rightarrow> string" where
  "autogenHeader now =
     ''## WARNING: This file was autogenerated!'' @ [CHR 0x0A] @
     ''## Manual modifications will be overwritten'' @ [CHR 0x0A] @
     ''## unless ignore: true is set in generate.yaml!'' @ [CHR 0x0A] @
     ''## Last Modification: '' @ now @ ''.'' @ [CHR 0x0A] @
     [CHR 0x0A]"

text \<open>\<^verbatim>\<open>outPath := g.configPath; if outputPath != "" { outPath = outputPath }\<close>\<close>

definition Exec_outPath :: "Generator \<Rightarrow> string \<Rightarrow> string" where
  "Exec_outPath g outputPath = (if outputPath \<noteq> [] then outputPath else configPath g)"

text \<open>
  The body of \<^verbatim>\<open>for fn, fc := range jso\<close>. \<^verbatim>\<open>continue\<close> leaves the file
  system as it is.
\<close>

definition Exec_write_file ::
  "'v library \<Rightarrow> string \<Rightarrow> string \<Rightarrow> string \<Rightarrow> 'v \<Rightarrow> filesystem \<Rightarrow> filesystem" where
  "Exec_write_file lib header outPath fn fc fs =
     (let yo = yaml_Marshal lib fc;
          fp = filepath_Join lib outPath fn @ ''.yaml''
      in case files fs fp of
           Some yi \<Rightarrow>
             (let ec = yaml_Unmarshal lib yi
              in if cmp_Equal lib fc ec then fs
                 else fs\<lparr>files := (files fs)(fp \<mapsto> header @ yo), written := written fs @ [fp]\<rparr>)
         | None \<Rightarrow> fs\<lparr>files := (files fs)(fp \<mapsto> header @ yo), written := written fs @ [fp]\<rparr>)"

fun Exec_write_loop ::
  "'v library \<Rightarrow> string \<Rightarrow> string \<Rightarrow> (string \<times> 'v) list \<Rightarrow> filesystem \<Rightarrow> filesystem" where
  "Exec_write_loop lib header outPath [] fs = fs"
| "Exec_write_loop lib header outPath ((fn, fc) # jso) fs =
     Exec_write_loop lib header outPath jso (Exec_write_file lib header outPath fn fc fs)"

text \<open>
  The second part of \<^verbatim>\<open>Exec\<close>: \<open>now\<close> is the formatted time of the call,
  \<open>jso\<close> the decoded output of the script.
\<close>

definition Exec_write ::
  "'v library \<Rightarrow> string \<Rightarrow> Generator \<Rightarrow> string \<Rightarrow> (string \<times> 'v) list \<Rightarrow> filesystem \<Rightarrow> filesystem" where
  "Exec_write lib now g outputPath jso fs =
     Exec_write_loop lib (autogenHeader now) (Exec_outPath g outputPath) jso fs"

subsection \<open>The resolution policy in the words of the specification\<close>




text \<open>
  The heap after the loop of \<^verbatim>\<open>appendStringMaps\<close> when it runs to its end: the
  entries of \<open>b\<close> assigned, one after the other, into the object of \<open>a\<close>.
\<close>

definition merged_heap :: "heap \<Rightarrow> gomap \<Rightarrow> gomap \<Rightarrow> heap" where
  "merged_heap h a b =
     (case a of
        None \<Rightarrow> h
      | Some p \<Rightarrow> h(p := fold (\<lambda>(k, v). AList.update k v) (map_entries h b) (h p)))"

section \<open>Properties\<close>

subsection \<open>The list merge\<close>

lemma listHas_set: "listHas xs v \<longleftrightarrow> v \<in> set xs"
  by (induction xs) auto

lemma appendLists_loop_filter:
  "appendLists_loop a b acc = acc @ filter (\<lambda>v. v \<notin> set a) b"
  by (induction b arbitrary: acc) (simp_all add: listHas_set)

lemma appendLists_filter: "appendLists a b = a @ filter (\<lambda>v. v \<notin> set a) b"
  by (simp add: appendLists_def appendLists_loop_filter)

lemma filter_absorbed:
  "filter (\<lambda>v. v \<notin> set (a @ filter (\<lambda>v. v \<notin> set a) b)) b = []"
  by (auto simp: filter_empty_conv)

text \<open>
  C7. \<open>appendLists A B\<close> is \<open>A\<close>, whole and in its order, followed by the elements of
  \<open>B\<close> that are not in \<open>A\<close>, in the order of \<open>B\<close>. Merging \<open>B\<close> in a second time
  changes nothing, and the result is not longer than \<open>A\<close> and \<open>B\<close> together.
\<close>

theorem appendLists_base_then_new:
  "appendLists A B = A @ filter (\<lambda>v. v \<notin> set A) B
   \<and> appendLists (appendLists A B) B = appendLists A B
   \<and> length (appendLists A B) \<le> length A + length B"
proof -
  have shape: "appendLists A B = A @ filter (\<lambda>v. v \<notin> set A) B"
    by (rule appendLists_filter)
  have "appendLists (A @ filter (\<lambda>v. v \<notin> set A) B) B = A @ filter (\<lambda>v. v \<notin> set A) B"
    unfolding appendLists_filter [of "A @ filter (\<lambda>v. v \<notin> set A) B" B]
    by (simp only: filter_absorbed append_Nil2)
  then have idem: "appendLists (appendLists A B) B = appendLists A B"
    by (simp only: shape)
  have len: "length (appendLists A B) \<le> length A + length B"
    by (simp add: shape)
  from shape idem len show ?thesis by blast
qed

text \<open>
  C10. Only membership in the base list is tested. So an element occurs in the result as
  often as in the base, plus, when the base does not have it, as often as in the addition:
  nothing is removed from the base, and a new element repeated in the addition is repeated
  in the result. Appending \<open>["x","x"]\<close> to the empty list gives \<open>["x","x"]\<close>.
\<close>

theorem appendLists_keeps_duplicates:
  "count_list (appendLists A B) x =
     count_list A x + (if listHas A x then 0 else count_list B x)
   \<and> appendLists [] [''x'', ''x''] = [''x'', ''x'']
   \<and> appendLists [''y'', ''y''] [''y''] = [''y'', ''y'']"
proof -
  have cnt: "count_list (filter (\<lambda>v. v \<notin> set A) B) x = (if x \<in> set A then 0 else count_list B x)"
    by (induction B) auto
  have "count_list (appendLists A B) x =
     count_list A x + (if listHas A x then 0 else count_list B x)"
    by (simp add: appendLists_filter cnt listHas_set)
  moreover have "appendLists [] [''x'', ''x''] = [''x'', ''x'']"
    by (simp add: appendLists_def)
  moreover have "appendLists [''y'', ''y''] [''y''] = [''y'', ''y'']"
    by (simp add: appendLists_def)
  ultimately show ?thesis by blast
qed

subsection \<open>The map merge\<close>







lemma entries_merged_heap_other:
  "r \<noteq> a \<Longrightarrow> map_entries (merged_heap h a b) r = map_entries h r"
  by (cases a; cases r) (auto simp: merged_heap_def map_entries_def)

lemma entries_merged_heap_nil:
  "map_entries (merged_heap h None b) r = map_entries h r"
  by (simp add: merged_heap_def)








text \<open>
  C8. For a base that is a map object, \<^verbatim>\<open>appendStringMaps\<close> returns that object
  with every key of the addition mapped to the addition's value and every other key as it
  was (\<open>appendStringMaps_eq\<close>, \<open>lookup_merged_heap_same\<close>). It does not for
  every base: it assigns into the map it was given instead of building a new one, so with
  a nil base and a non-empty addition the first assignment panics and no map is returned.
  Here the addition is the object at address 0, holding \<open>k \<mapsto> v\<close>.
\<close>

theorem appendStringMaps_nil_base_panics:
  "appendStringMaps ((\<lambda>_. [])(0 := [(''k'', ''v'')])) None (Some 0) = Inl NilMapAssignment"
  by (simp add: appendStringMaps_def map_entries_def map_assign_def)

subsection \<open>Resolution\<close>

text \<open>
  C1. Resolution writes into the global configuration. The global \<open>labels.common\<close>
  is the object at address 0, holding \<open>team \<mapsto> x\<close>; the local one is the object at
  address 1, holding \<open>env \<mapsto> y\<close>, with \<open>globalHandling.common = append\<close>. After
  \<^verbatim>\<open>UpdateConfig\<close> the object at address 0, still the global \<open>labels.common\<close>,
  holds \<open>env \<mapsto> y\<close> as well: \<^verbatim>\<open>appendStringMaps\<close> has assigned into the storage
  of its first argument.
\<close>

theorem UpdateConfig_mutates_global:
  "UpdateConfig
     ((\<lambda>_. [])(0 := [(''team'', ''x'')], 1 := [(''env'', ''y'')]))
     \<lparr>Generator.Tags = \<lparr>TagConfig.FromLabels = [], TagConfig.Common = None,
         LocalTagConfig.GlobalHandling = \<lparr>GlobalHandlingTags.FromLabels = [], GlobalHandlingTags.Common = []\<rparr>\<rparr>,
       Generator.Labels = \<lparr>LabelConfig.FromCRD = [], LabelConfig.Common = Some 1,
         LocalLabelConfig.GlobalHandling = \<lparr>GlobalHandlingLabels.FromCRD = [], GlobalHandlingLabels.Common = ''append''\<rparr>\<rparr>,
       configPath = []\<rparr>
     (Some \<lparr>GeneratorConfig.Tags = \<lparr>TagConfig.FromLabels = [], TagConfig.Common = None\<rparr>,
            GeneratorConfig.Labels = \<lparr>LabelConfig.FromCRD = [], LabelConfig.Common = Some 0\<rparr>\<rparr>)
   = Inr (\<lparr>Generator.Tags = \<lparr>TagConfig.FromLabels = [], TagConfig.Common = None,
         LocalTagConfig.GlobalHandling = \<lparr>GlobalHandlingTags.FromLabels = [], GlobalHandlingTags.Common = []\<rparr>\<rparr>,
       Generator.Labels = \<lparr>LabelConfig.FromCRD = [], LabelConfig.Common = Some 0,
         LocalLabelConfig.GlobalHandling = \<lparr>GlobalHandlingLabels.FromCRD = [], GlobalHandlingLabels.Common = ''append''\<rparr>\<rparr>,
       configPath = []\<rparr>,
       (\<lambda>_. [])(0 := [(''team'', ''x''), (''env'', ''y'')], 1 := [(''env'', ''y'')]))
   \<and> map_lookup ((\<lambda>_. [])(0 := [(''team'', ''x'')], 1 := [(''env'', ''y'')])) (Some 0) ''env'' = None
   \<and> map_lookup ((\<lambda>_. [])(0 := [(''team'', ''x''), (''env'', ''y'')], 1 := [(''env'', ''y'')])) (Some 0) ''env'' = Some ''y''"
  by (simp add: UpdateConfig_def UpdateConfig_Labels_FromCRD_def UpdateConfig_Labels_Common_def
      UpdateConfig_Tags_FromLabels_def UpdateConfig_Tags_Common_def appendStringMaps_def
      map_entries_def map_assign_def map_len_def map_lookup_def appendGlobal_def replaceGlobal_def
      fun_upd_twist)



subsection \<open>Validation\<close>

lemma CheckConfig_loop_filter:
  "CheckConfig_loop h c f ts acc =
     acc @ filter (\<lambda>t. map_lookup h c t = None \<and> t \<notin> set f \<and> t \<notin> set globalLabels) ts"
  by (induction ts arbitrary: acc) (simp_all add: listHas_set)

lemma filter_unknown_empty:
  "filter (\<lambda>t. m t = None \<and> t \<notin> A \<and> t \<notin> B) ts = [] \<longleftrightarrow>
     (\<forall>t \<in> set ts. (\<exists>v. m t = Some v) \<or> t \<in> A \<or> t \<in> B)"
  by (auto simp: filter_empty_conv)

text \<open>
  C3. \<^verbatim>\<open>CheckConfig\<close> returns the nil error exactly when every entry of the
  resolved \<open>tags.fromLabels\<close> is a key of \<open>labels.common\<close> (the map of the global
  configuration is the one consulted), an element of the resolved \<open>labels.fromCRD\<close>,
  or one of the four built-in labels. Otherwise the error message is the fixed text
  followed by the JSON of the offending entries: those entries of \<open>tags.fromLabels\<close>
  that are in none of the three, in their order, and no others.
\<close>

theorem CheckConfig_accepts_iff:
  "CheckConfig marshal h g (Some gc) =
     (let bad = filter (\<lambda>t. map_lookup h (LabelConfig.Common (GeneratorConfig.Labels gc)) t = None
                           \<and> t \<notin> set (LabelConfig.FromCRD (Generator.Labels g))
                           \<and> t \<notin> {''crossplane.io/claim-name'', ''crossplane.io/claim-namespace'',
                                   ''crossplane.io/composite'', ''external-name''})
                     (TagConfig.FromLabels (Generator.Tags g))
      in if bad = [] then Inr None else Inr (Some (CheckConfig_message @ marshal bad)))
   \<and> (CheckConfig marshal h g (Some gc) = Inr None \<longleftrightarrow>
        (\<forall>t \<in> set (TagConfig.FromLabels (Generator.Tags g)).
            (\<exists>v. map_lookup h (LabelConfig.Common (GeneratorConfig.Labels gc)) t = Some v)
          \<or> t \<in> set (LabelConfig.FromCRD (Generator.Labels g))
          \<or> t \<in> {''crossplane.io/claim-name'', ''crossplane.io/claim-namespace'',
                   ''crossplane.io/composite'', ''external-name''}))"
proof -
  let ?bad = "filter (\<lambda>t. map_lookup h (LabelConfig.Common (GeneratorConfig.Labels gc)) t = None
                           \<and> t \<notin> set (LabelConfig.FromCRD (Generator.Labels g))
                           \<and> t \<notin> {''crossplane.io/claim-name'', ''crossplane.io/claim-namespace'',
                                   ''crossplane.io/composite'', ''external-name''})
                     (TagConfig.FromLabels (Generator.Tags g))"
  have loop: "CheckConfig_loop h (LabelConfig.Common (GeneratorConfig.Labels gc))
      (LabelConfig.FromCRD (Generator.Labels g)) (TagConfig.FromLabels (Generator.Tags g)) [] = ?bad"
    by (simp add: CheckConfig_loop_filter globalLabels_def)
  have eq: "CheckConfig marshal h g (Some gc) =
      (if ?bad = [] then Inr None else Inr (Some (CheckConfig_message @ marshal ?bad)))"
    by (simp add: CheckConfig_def loop getJsonStringFromList_def Let_def)
  have "?bad = [] \<longleftrightarrow>
        (\<forall>t \<in> set (TagConfig.FromLabels (Generator.Tags g)).
            (\<exists>v. map_lookup h (LabelConfig.Common (GeneratorConfig.Labels gc)) t = Some v)
          \<or> t \<in> set (LabelConfig.FromCRD (Generator.Labels g))
          \<or> t \<in> {''crossplane.io/claim-name'', ''crossplane.io/claim-namespace'',
                   ''crossplane.io/composite'', ''external-name''})"
    by (rule filter_unknown_empty)
  with eq show ?thesis by (simp add: Let_def)
qed

theorem CheckConfig_accepts_iff_witness:
  "CheckConfig concat ((\<lambda>_. [])(0 := [(''team'', ''x'')]))
     \<lparr>Generator.Tags = \<lparr>TagConfig.FromLabels = [''team'', ''zone'', ''external-name''], TagConfig.Common = None,
         LocalTagConfig.GlobalHandling = \<lparr>GlobalHandlingTags.FromLabels = [], GlobalHandlingTags.Common = []\<rparr>\<rparr>,
       Generator.Labels = \<lparr>LabelConfig.FromCRD = [''zone''], LabelConfig.Common = None,
         LocalLabelConfig.GlobalHandling = \<lparr>GlobalHandlingLabels.FromCRD = [], GlobalHandlingLabels.Common = []\<rparr>\<rparr>,
       configPath = []\<rparr>
     (Some \<lparr>GeneratorConfig.Tags = \<lparr>TagConfig.FromLabels = [], TagConfig.Common = None\<rparr>,
            GeneratorConfig.Labels = \<lparr>LabelConfig.FromCRD = [], LabelConfig.Common = Some 0\<rparr>\<rparr>)
   = Inr None
   \<and> CheckConfig concat ((\<lambda>_. [])(0 := [(''team'', ''x'')]))
     \<lparr>Generator.Tags = \<lparr>TagConfig.FromLabels = [''team'', ''zone'', ''external-name'', ''cost''], TagConfig.Common = None,
         LocalTagConfig.GlobalHandling = \<lparr>GlobalHandlingTags.FromLabels = [], GlobalHandlingTags.Common = []\<rparr>\<rparr>,
       Generator.Labels = \<lparr>LabelConfig.FromCRD = [], LabelConfig.Common = None,
         LocalLabelConfig.GlobalHandling = \<lparr>GlobalHandlingLabels.FromCRD = [], GlobalHandlingLabels.Common = []\<rparr>\<rparr>,
       configPath = []\<rparr>
     (Some \<lparr>GeneratorConfig.Tags = \<lparr>TagConfig.FromLabels = [], TagConfig.Common = None\<rparr>,
            GeneratorConfig.Labels = \<lparr>LabelConfig.FromCRD = [], LabelConfig.Common = Some 0\<rparr>\<rparr>)
   = Inr (Some (CheckConfig_message @ concat [''zone'', ''cost'']))"
proof -
  let ?h = "(\<lambda>_. [])(0 := [(''team'', ''x'')]) :: heap"
  let ?gc = "\<lparr>GeneratorConfig.Tags = \<lparr>TagConfig.FromLabels = [], TagConfig.Common = None\<rparr>,
            GeneratorConfig.Labels = \<lparr>LabelConfig.FromCRD = [], LabelConfig.Common = Some 0\<rparr>\<rparr>"
  let ?g1 = "\<lparr>Generator.Tags = \<lparr>TagConfig.FromLabels = [''team'', ''zone'', ''external-name''], TagConfig.Common = None,
         LocalTagConfig.GlobalHandling = \<lparr>GlobalHandlingTags.FromLabels = [], GlobalHandlingTags.Common = []\<rparr>\<rparr>,
       Generator.Labels = \<lparr>LabelConfig.FromCRD = [''zone''], LabelConfig.Common = None,
         LocalLabelConfig.GlobalHandling = \<lparr>GlobalHandlingLabels.FromCRD = [], GlobalHandlingLabels.Common = []\<rparr>\<rparr>,
       configPath = []\<rparr>"
  let ?g2 = "\<lparr>Generator.Tags = \<lparr>TagConfig.FromLabels = [''team'', ''zone'', ''external-name'', ''cost''], TagConfig.Common = None,
         LocalTagConfig.GlobalHandling = \<lparr>GlobalHandlingTags.FromLabels = [], GlobalHandlingTags.Common = []\<rparr>\<rparr>,
       Generator.Labels = \<lparr>LabelConfig.FromCRD = [], LabelConfig.Common = None,
         LocalLabelConfig.GlobalHandling = \<lparr>GlobalHandlingLabels.FromCRD = [], GlobalHandlingLabels.Common = []\<rparr>\<rparr>,
       configPath = []\<rparr>"
  have all_known: "\<forall>t \<in> set (TagConfig.FromLabels (Generator.Tags ?g1)).
            (\<exists>v. map_lookup ?h (LabelConfig.Common (GeneratorConfig.Labels ?gc)) t = Some v)
          \<or> t \<in> set (LabelConfig.FromCRD (Generator.Labels ?g1))
          \<or> t \<in> {''crossplane.io/claim-name'', ''crossplane.io/claim-namespace'',
                   ''crossplane.io/composite'', ''external-name''}"
    by (simp add: map_lookup_def map_entries_def)
  have ok: "CheckConfig concat ?h ?g1 (Some ?gc) = Inr None"
    using CheckConfig_accepts_iff [of concat ?h ?g1 ?gc] all_known by blast
  have bad: "CheckConfig concat ?h ?g2 (Some ?gc) = Inr (Some (CheckConfig_message @ concat [''zone'', ''cost'']))"
    using CheckConfig_accepts_iff [of concat ?h ?g2 ?gc]
    by (simp add: map_lookup_def map_entries_def)
  from ok bad show ?thesis by blast
qed

text \<open>
  C9. \<^verbatim>\<open>CheckConfig\<close> reads \<open>labels.common\<close> from the global configuration
  only. Two local configurations with the same \<open>tags.fromLabels\<close> and the same
  \<open>labels.fromCRD\<close> get the same result against the same global configuration,
  whatever their own \<open>labels.common\<close> refers to and whatever that map holds.
\<close>

theorem CheckConfig_ignores_local_common:
  assumes "TagConfig.FromLabels (Generator.Tags g1) = TagConfig.FromLabels (Generator.Tags g2)"
    and "LabelConfig.FromCRD (Generator.Labels g1) = LabelConfig.FromCRD (Generator.Labels g2)"
    and "map_lookup h1 (LabelConfig.Common (GeneratorConfig.Labels gc))
         = map_lookup h2 (LabelConfig.Common (GeneratorConfig.Labels gc))"
  shows "CheckConfig marshal h1 g1 (Some gc) = CheckConfig marshal h2 g2 (Some gc)"
  using assms by (simp add: CheckConfig_def CheckConfig_loop_filter)

theorem CheckConfig_ignores_local_common_witness:
  "CheckConfig concat ((\<lambda>_. [])(0 := [(''team'', ''x'')], 1 := [(''zone'', ''z'')]))
     \<lparr>Generator.Tags = \<lparr>TagConfig.FromLabels = [''zone''], TagConfig.Common = None,
         LocalTagConfig.GlobalHandling = \<lparr>GlobalHandlingTags.FromLabels = [], GlobalHandlingTags.Common = []\<rparr>\<rparr>,
       Generator.Labels = \<lparr>LabelConfig.FromCRD = [], LabelConfig.Common = Some 1,
         LocalLabelConfig.GlobalHandling = \<lparr>GlobalHandlingLabels.FromCRD = [], GlobalHandlingLabels.Common = ''replace''\<rparr>\<rparr>,
       configPath = []\<rparr>
     (Some \<lparr>GeneratorConfig.Tags = \<lparr>TagConfig.FromLabels = [], TagConfig.Common = None\<rparr>,
            GeneratorConfig.Labels = \<lparr>LabelConfig.FromCRD = [], LabelConfig.Common = Some 0\<rparr>\<rparr>)
   = CheckConfig concat ((\<lambda>_. [])(0 := [(''team'', ''x'')]))
     \<lparr>Generator.Tags = \<lparr>TagConfig.FromLabels = [''zone''], TagConfig.Common = None,
         LocalTagConfig.GlobalHandling = \<lparr>GlobalHandlingTags.FromLabels = [], GlobalHandlingTags.Common = []\<rparr>\<rparr>,
       Generator.Labels = \<lparr>LabelConfig.FromCRD = [], LabelConfig.Common = None,
         LocalLabelConfig.GlobalHandling = \<lparr>GlobalHandlingLabels.FromCRD = [], GlobalHandlingLabels.Common = []\<rparr>\<rparr>,
       configPath = []\<rparr>
     (Some \<lparr>GeneratorConfig.Tags = \<lparr>TagConfig.FromLabels = [], TagConfig.Common = None\<rparr>,
            GeneratorConfig.Labels = \<lparr>LabelConfig.FromCRD = [], LabelConfig.Common = Some 0\<rparr>\<rparr>)"
  by (rule CheckConfig_ignores_local_common) (simp_all add: map_lookup_def map_entries_def)

subsection \<open>Tag-schema detection\<close>

text \<open>
  Where every pointer that \<^verbatim>\<open>checkTagType\<close> reads through is set, the three shapes
  are classified as the specification says, and a version name that the CRD does not list
  gives the unknown result.
\<close>

lemma tryToGetTags_loop_absent:
  "version \<notin> Name ` set versions \<Longrightarrow> tryToGetTags_loop versions version = Inr None"
  by (induction versions) auto

lemma checkTagType_absent_version:
  "version \<notin> Name ` set (Versions (Spec crd)) \<Longrightarrow> checkTagType crd version = Inr ('''', '''')"
  by (simp add: checkTagType_def tryToGetTags_def tryToGetTags_loop_absent)

lemma checkTagType_keyValueArray:
  assumes "tryToGetTags crd version = Inr (Some (tags, tagProperty))"
    and "Type tags = ''array''" and "Items tags = Some items"
    and "JSONSchemaPropsOrArray.Schema items = Some itemSchema" and "Type itemSchema = ''object''"
    and "map_of (Properties itemSchema) ''key'' \<noteq> None"
    and "map_of (Properties itemSchema) ''value'' \<noteq> None"
  shows "checkTagType crd version = Inr (''keyValueArray'', tagProperty)"
  using assms by (simp add: checkTagType_def checkTagType_array_def)

lemma checkTagType_tagKeyValueArray:
  assumes "tryToGetTags crd version = Inr (Some (tags, tagProperty))"
    and "Type tags = ''array''" and "Items tags = Some items"
    and "JSONSchemaPropsOrArray.Schema items = Some itemSchema" and "Type itemSchema = ''object''"
    and "\<not> (map_of (Properties itemSchema) ''key'' \<noteq> None \<and> map_of (Properties itemSchema) ''value'' \<noteq> None)"
    and "map_of (Properties itemSchema) ''tagKey'' \<noteq> None"
    and "map_of (Properties itemSchema) ''tagValue'' \<noteq> None"
  shows "checkTagType crd version = Inr (''tagKeyValueArray'', tagProperty)"
  using assms by (auto simp: checkTagType_def checkTagType_array_def)

lemma checkTagType_stringObject:
  assumes "tryToGetTags crd version = Inr (Some (tags, tagProperty))"
    and "Type tags = ''object''" and "AdditionalProperties tags = Some additional"
    and "JSONSchemaPropsOrBool.Schema additional = Some valueSchema" and "Type valueSchema = ''string''"
  shows "checkTagType crd version = Inr (''stringObject'', tagProperty)"
  using assms by (simp add: checkTagType_def checkTagType_array_def checkTagType_object_def)

lemma tryToGetTags_version_tags_first:
  assumes "CustomResourceDefinitionVersion.Schema schemaVersion = Some validation"
    and "OpenAPIV3Schema validation = Some schema"
    and "map_of (Properties schema) ''spec'' = Some specs"
    and "map_of (Properties specs) ''forProvider'' = Some forProvider"
  shows "tryToGetTags_version schemaVersion =
     (case map_of (Properties forProvider) ''tags'' of
        Some tags \<Rightarrow> Inr (Some (tags, ''tag''))
      | None \<Rightarrow>
          (case map_of (Properties forProvider) ''tagging'' of
             None \<Rightarrow> Inr None
           | Some tagging \<Rightarrow>
               (case map_of (Properties tagging) ''tagSet'' of
                  Some tagSet \<Rightarrow> Inr (Some (tagSet, ''tagSet''))
                | None \<Rightarrow> Inr None)))"
  using assms by (simp add: tryToGetTags_version_def)

text \<open>
  C4. The classification above is the one specified, but the unknown result is specified
  for every CRD in which none of the three shapes matches, and that fails. Here the
  \<open>tags\<close> node under \<open>spec.forProvider\<close> of the requested version has type
  \<open>object\<close> with a fixed property and no \<open>additionalProperties\<close>: none of the three
  shapes. \<^verbatim>\<open>checkTagType\<close> reads \<^verbatim>\<open>tags.AdditionalProperties.Schema\<close> through
  the nil pointer and panics; nothing is returned.
\<close>

theorem checkTagType_object_without_additionalProperties:
  "checkTagType
     \<lparr>Spec = \<lparr>Versions = [\<lparr>Name = ''v1beta1'', Schema = Some \<lparr>OpenAPIV3Schema = Some
        (JSONSchemaProps ''object'' None
          [(''spec'', JSONSchemaProps ''object'' None
            [(''forProvider'', JSONSchemaProps ''object'' None
              [(''tags'', JSONSchemaProps ''object'' None
                 [(''owner'', JSONSchemaProps ''string'' None [] None)] None)]
              None)]
            None)]
          None)\<rparr>\<rparr>]\<rparr>\<rparr>
     ''v1beta1''
   = Inl NilDereference"
  by (simp add: checkTagType_def tryToGetTags_def tryToGetTags_version_def
      checkTagType_array_def checkTagType_object_def)

text \<open>
  C5. Detection is not total. A version entry of the requested name without a schema, a
  \<open>tags\<close> node of type \<open>array\<close> without \<open>items\<close>, and a \<open>tags\<close> node of type
  \<open>object\<close> with \<open>additionalProperties: true\<close> (no schema) each end in the panic of a
  nil pointer dereference, where the specification has a missing level treated as not
  found.
\<close>

theorem checkTagType_panics_on_absent_levels:
  "checkTagType \<lparr>Spec = \<lparr>Versions = [\<lparr>Name = ''v1beta1'', Schema = None\<rparr>]\<rparr>\<rparr> ''v1beta1''
     = Inl NilDereference
   \<and> checkTagType
     \<lparr>Spec = \<lparr>Versions = [\<lparr>Name = ''v1beta1'', Schema = Some \<lparr>OpenAPIV3Schema = Some
        (JSONSchemaProps ''object'' None
          [(''spec'', JSONSchemaProps ''object'' None
            [(''forProvider'', JSONSchemaProps ''object'' None
              [(''tags'', JSONSchemaProps ''array'' None [] None)]
              None)]
            None)]
          None)\<rparr>\<rparr>]\<rparr>\<rparr>
     ''v1beta1''
     = Inl NilDereference
   \<and> checkTagType
     \<lparr>Spec = \<lparr>Versions = [\<lparr>Name = ''v1beta1'', Schema = Some \<lparr>OpenAPIV3Schema = Some
        (JSONSchemaProps ''object'' None
          [(''spec'', JSONSchemaProps ''object'' None
            [(''forProvider'', JSONSchemaProps ''object'' None
              [(''tags'', JSONSchemaProps ''object'' None []
                 (Some (JSONSchemaPropsOrBool True None)))]
              None)]
            None)]
          None)\<rparr>\<rparr>]\<rparr>\<rparr>
     ''v1beta1''
     = Inl NilDereference"
  by (simp add: checkTagType_def tryToGetTags_def tryToGetTags_version_def
      checkTagType_array_def checkTagType_object_def)

subsection \<open>Writing the files\<close>

lemma Exec_write_file_cases:
  "Exec_write_file lib header outPath fn fc fs =
     (if \<exists>yi. files fs (filepath_Join lib outPath fn @ ''.yaml'') = Some yi
              \<and> cmp_Equal lib fc (yaml_Unmarshal lib yi)
      then fs
      else fs\<lparr>files := (files fs)(filepath_Join lib outPath fn @ ''.yaml'' \<mapsto> header @ yaml_Marshal lib fc),
              written := written fs @ [filepath_Join lib outPath fn @ ''.yaml'']\<rparr>)"
  by (auto simp: Exec_write_file_def Let_def split: option.splits)

lemma Exec_write_loop_skips:
  "(\<forall>(fn, fc) \<in> set jso. \<exists>yi. files fs (filepath_Join lib outPath fn @ ''.yaml'') = Some yi
        \<and> cmp_Equal lib fc (yaml_Unmarshal lib yi))
   \<Longrightarrow> Exec_write_loop lib header outPath jso fs = fs"
proof (induction jso)
  case Nil
  show ?case by simp
next
  case (Cons kv jso)
  obtain fn fc where kv: "kv = (fn, fc)" by (cases kv)
  from Cons.prems kv have "Exec_write_file lib header outPath fn fc fs = fs"
    by (simp add: Exec_write_file_cases)
  with Cons kv show ?case by simp
qed

lemma Exec_write_loop_frame:
  "\<exists>ws. written (Exec_write_loop lib header outPath jso fs) = written fs @ ws
       \<and> set ws \<subseteq> (\<lambda>fn. filepath_Join lib outPath fn @ ''.yaml'') ` fst ` set jso
       \<and> (\<forall>p. p \<notin> set ws \<longrightarrow> files (Exec_write_loop lib header outPath jso fs) p = files fs p)"
proof (induction jso arbitrary: fs)
  case Nil
  show ?case by simp
next
  case (Cons kv jso)
  obtain fn fc where kv: "kv = (fn, fc)" by (cases kv)
  let ?fp = "filepath_Join lib outPath fn @ ''.yaml''"
  let ?fs1 = "Exec_write_file lib header outPath fn fc fs"
  from Cons.IH [of ?fs1] obtain ws where
    w: "written (Exec_write_loop lib header outPath jso ?fs1) = written ?fs1 @ ws"
    and s: "set ws \<subseteq> (\<lambda>fn. filepath_Join lib outPath fn @ ''.yaml'') ` fst ` set jso"
    and f: "\<forall>p. p \<notin> set ws \<longrightarrow> files (Exec_write_loop lib header outPath jso ?fs1) p = files ?fs1 p"
    by blast
  have step: "(?fs1 = fs) \<or> (written ?fs1 = written fs @ [?fp] \<and> (\<forall>p. p \<noteq> ?fp \<longrightarrow> files ?fs1 p = files fs p))"
    by (simp add: Exec_write_file_cases)
  then show ?case
  proof
    assume "?fs1 = fs"
    with w s f kv have "written (Exec_write_loop lib header outPath (kv # jso) fs) = written fs @ ws
       \<and> set ws \<subseteq> (\<lambda>fn. filepath_Join lib outPath fn @ ''.yaml'') ` fst ` set (kv # jso)
       \<and> (\<forall>p. p \<notin> set ws \<longrightarrow> files (Exec_write_loop lib header outPath (kv # jso) fs) p = files fs p)"
      by auto
    then show ?thesis by blast
  next
    assume a: "written ?fs1 = written fs @ [?fp] \<and> (\<forall>p. p \<noteq> ?fp \<longrightarrow> files ?fs1 p = files fs p)"
    with w s f kv have "written (Exec_write_loop lib header outPath (kv # jso) fs) = written fs @ (?fp # ws)
       \<and> set (?fp # ws) \<subseteq> (\<lambda>fn. filepath_Join lib outPath fn @ ''.yaml'') ` fst ` set (kv # jso)
       \<and> (\<forall>p. p \<notin> set (?fp # ws) \<longrightarrow> files (Exec_write_loop lib header outPath (kv # jso) fs) p = files fs p)"
      by auto
    then show ?thesis by blast
  qed
qed

lemma Exec_write_loop_settles:
  assumes "\<forall>(fn, fc) \<in> set jso. cmp_Equal lib fc (yaml_Unmarshal lib (header @ yaml_Marshal lib fc))"
    and "distinct (map (\<lambda>(fn, fc). filepath_Join lib outPath fn @ ''.yaml'') jso)"
  shows "\<forall>(fn, fc) \<in> set jso.
           \<exists>yi. files (Exec_write_loop lib header outPath jso fs) (filepath_Join lib outPath fn @ ''.yaml'') = Some yi
              \<and> cmp_Equal lib fc (yaml_Unmarshal lib yi)"
  using assms
proof (induction jso arbitrary: fs)
  case Nil
  show ?case by simp
next
  case (Cons kv jso)
  obtain fn fc where kv: "kv = (fn, fc)" by (cases kv)
  let ?P = "\<lambda>fn. filepath_Join lib outPath fn @ ''.yaml''"
  let ?fs1 = "Exec_write_file lib header outPath fn fc fs"
  from Cons.prems kv have rt: "cmp_Equal lib fc (yaml_Unmarshal lib (header @ yaml_Marshal lib fc))"
    and rts: "\<forall>(fn, fc) \<in> set jso. cmp_Equal lib fc (yaml_Unmarshal lib (header @ yaml_Marshal lib fc))"
    and fresh: "?P fn \<notin> ?P ` fst ` set jso"
    and dist: "distinct (map (\<lambda>(fn, fc). filepath_Join lib outPath fn @ ''.yaml'') jso)"
    by (auto simp: image_iff)
  have here: "\<exists>yi. files ?fs1 (?P fn) = Some yi \<and> cmp_Equal lib fc (yaml_Unmarshal lib yi)"
    using rt by (auto simp: Exec_write_file_cases)
  from Exec_write_loop_frame [of lib header outPath jso ?fs1] fresh
  have "files (Exec_write_loop lib header outPath jso ?fs1) (?P fn) = files ?fs1 (?P fn)"
    by blast
  with here have first: "\<exists>yi. files (Exec_write_loop lib header outPath (kv # jso) fs) (?P fn) = Some yi
      \<and> cmp_Equal lib fc (yaml_Unmarshal lib yi)"
    using kv by simp
  from Cons.IH [OF rts dist, of ?fs1]
  have rest: "\<forall>(fn, fc) \<in> set jso.
           \<exists>yi. files (Exec_write_loop lib header outPath (kv # jso) fs) (?P fn) = Some yi
              \<and> cmp_Equal lib fc (yaml_Unmarshal lib yi)"
    using kv by simp
  from first rest kv show ?case by simp
qed

lemma Exec_write_second_run:
  assumes "\<forall>(fn, fc) \<in> set jso.
             cmp_Equal lib fc (yaml_Unmarshal lib (autogenHeader now @ yaml_Marshal lib fc))"
    and "distinct (map (\<lambda>(fn, fc). filepath_Join lib (Exec_outPath g outputPath) fn @ ''.yaml'') jso)"
  shows "Exec_write lib later g outputPath jso (Exec_write lib now g outputPath jso fs)
         = Exec_write lib now g outputPath jso fs"
  unfolding Exec_write_def
  by (rule Exec_write_loop_skips) (rule Exec_write_loop_settles [OF assms])



end
